theory Spec2Isabelle
  imports Main "HOL-Library.AList"
begin

section \<open>CountMap: a shallow embedding of src/index.js\<close>

text \<open>
  The class \<^verbatim>\<open>CountMap\<close> keeps one plain JavaScript object, \<^verbatim>\<open>this.counts\<close>, whose
  own properties are named by hash tokens and hold count objects
  \<^verbatim>\<open>{ hash, key, count }\<close>. The embedding follows the source method by method.

  \<^item> Keys are values of an arbitrary type \<open>'k\<close>; counts are integers (the documented
    \<^verbatim>\<open>int\<close>), modelled as \<open>int\<close>.
  \<^item> A hash token is a string: the documented result type of the hash callback, and the
    type of every property name.
  \<^item> A plain object used as a table is the list of its own properties in creation order.
    Assigning to a property that exists keeps its position, assigning to a new one
    appends it (\<open>AList.update\<close>), \<^verbatim>\<open>delete\<close> removes it (\<open>AList.delete\<close>), and reading
    is \<open>map_of\<close>. These methods read the table's own records only; what the code does
    when a token names a member inherited from \<^verbatim>\<open>Object.prototype\<close>, when the hash
    function throws and when a sum is not a double is the subject of the second part.
  \<^item> Every method mutates the receiver in place; here it takes the receiver's state and
    returns the new one. A \<^verbatim>\<open>throw\<close> is the left injection of the result, paired with
    the state the receiver has at that moment.
  \<^item> An instance is the value of its fields. Object identity, and whether two instances
    share a table or a count object, are not represented.
\<close>

subsection \<open>Data\<close>

datatype error = RangeError | TypeError

text \<open>The typedef \<^verbatim>\<open>countObject\<close>: properties \<^verbatim>\<open>count\<close>, \<^verbatim>\<open>hash\<close> and \<^verbatim>\<open>key\<close>.\<close>

record 'k countObject =
  obj_hash :: string
  obj_key :: 'k
  obj_count :: int

type_synonym 'k table = "(string \<times> 'k countObject) list"

text \<open>
  A hash callback is a function value. \<^verbatim>\<open>equals\<close> compares two callbacks through
  \<^verbatim>\<open>Function.prototype.toString\<close>, that is, by their source text, so the text is part
  of the value; nothing ties the text to the behaviour (two closures over different
  variables share one text).
\<close>

datatype 'k hashFn = HashFn (toString: string) (call: "'k \<Rightarrow> string")

text \<open>
  The instance. \<open>count\<close> is the property that \<^verbatim>\<open>rehash\<close> creates with
  \<^verbatim>\<open>this.count = {}\<close>; it is undefined (\<open>None\<close>) until then.
\<close>

record 'k CountMap =
  counts :: "'k table"
  hash :: "'k hashFn"
  allowNegativeCounts :: bool
  count :: "'k table option"

subsection \<open>Property enumeration order\<close>

text \<open>
  \<^verbatim>\<open>Object.values\<close> lists the own properties whose names are array indices (canonical
  decimal numerals below \<open>2^32 - 1\<close>) first, in ascending numeric order, then the other
  names in creation order.
\<close>

definition digit_value :: "char \<Rightarrow> int option" where
  "digit_value c = map_of (zip ''0123456789'' [0, 1, 2, 3, 4, 5, 6, 7, 8, 9]) c"

fun digits_value :: "int \<Rightarrow> string \<Rightarrow> int option" where
  "digits_value acc [] = Some acc"
| "digits_value acc (c # cs) =
     (case digit_value c of None \<Rightarrow> None | Some d \<Rightarrow> digits_value (10 * acc + d) cs)"

definition array_index :: "string \<Rightarrow> int option" where
  "array_index p =
     (if p = [] then None
      else if hd p = CHR ''0'' \<and> p \<noteq> ''0'' then None
      else case digits_value 0 p of
             None \<Rightarrow> None
           | Some n \<Rightarrow> if n < 4294967295 then Some n else None)"

definition Object_values :: "(string \<times> 'v) list \<Rightarrow> 'v list" where
  "Object_values obj =
     map snd (sort_key (\<lambda>pv. the (array_index (fst pv)))
                (filter (\<lambda>pv. array_index (fst pv) \<noteq> None) obj)
              @ filter (\<lambda>pv. array_index (fst pv) = None) obj)"

subsection \<open>Number keys and the two hash functions of the test suite\<close>

text \<open>
  \<^verbatim>\<open>Number.prototype.toString\<close> on an integer key: its decimal numeral (JavaScript
  switches to exponent notation from \<open>10^21\<close> on; the keys used here are far below).
\<close>

fun nat_toString :: "nat \<Rightarrow> string" where
  "nat_toString n =
     (if n < 10 then [''0123456789'' ! n]
      else nat_toString (n div 10) @ [''0123456789'' ! (n mod 10)])"

declare nat_toString.simps [simp del]

definition Number_toString :: "int \<Rightarrow> string" where
  "Number_toString i = (if i < 0 then CHR ''-'' # nat_toString (nat (- i)) else nat_toString (nat i))"

text \<open>The constructor's default, \<^verbatim>\<open>(key) => key.toString()\<close>, on integer keys.\<close>

definition default_hash :: "int hashFn" where
  "default_hash = HashFn ''(key) => key.toString()'' Number_toString"

text \<open>
  The test suite's \<^verbatim>\<open>hashHalf = (a) => Math.round(a / 2).toString()\<close>. \<^verbatim>\<open>Math.round\<close>
  rounds a half towards \<open>+\<infinity>\<close>, so on an integer \<open>a\<close> it gives \<open>(a + 1) div 2\<close>.
\<close>

definition hashHalf :: "int hashFn" where
  "hashHalf = HashFn ''(a) => Math.round(a / 2).toString()'' (\<lambda>a. Number_toString ((a + 1) div 2))"

subsection \<open>Methods\<close>

text \<open>
  \<^verbatim>\<open>this.counts[hashed].count\<close>: reading \<^verbatim>\<open>.count\<close> of an absent property is a
  \<^verbatim>\<open>TypeError\<close>.
\<close>

definition read_count :: "'k CountMap \<Rightarrow> string \<Rightarrow> error + int" where
  "read_count this hashed =
     (case map_of (counts this) hashed of
        None \<Rightarrow> Inl TypeError
      | Some entry \<Rightarrow> Inr (obj_count entry))"

definition add :: "'k CountMap \<Rightarrow> 'k \<Rightarrow> int \<Rightarrow> (error + int) \<times> 'k CountMap" where
  "add this key amount =
     (if amount < 0 then (Inl RangeError, this)
      else
        let hashed = call (hash this) key;
            this' =
              (case map_of (counts this) hashed of
                 None \<Rightarrow>
                   this\<lparr>counts := AList.update hashed
                          \<lparr>obj_hash = hashed, obj_key = key, obj_count = amount\<rparr> (counts this)\<rparr>
               | Some entry \<Rightarrow>
                   this\<lparr>counts := AList.update hashed
                          (entry\<lparr>obj_count := obj_count entry + amount\<rparr>) (counts this)\<rparr>)
        in (read_count this' hashed, this'))"

definition subtract :: "'k CountMap \<Rightarrow> 'k \<Rightarrow> int \<Rightarrow> (error + int) \<times> 'k CountMap" where
  "subtract this key amount =
     (if amount < 0 then (Inl RangeError, this)
      else
        let hashed = call (hash this) key in
        case map_of (counts this) hashed of
          Some entry \<Rightarrow>
            let entry1 = entry\<lparr>obj_count := obj_count entry - amount\<rparr>;
                entry2 = (if \<not> allowNegativeCounts this \<and> obj_count entry1 < 0
                          then entry1\<lparr>obj_count := 0\<rparr> else entry1);
                this' = this\<lparr>counts := AList.update hashed entry2 (counts this)\<rparr>
            in (read_count this' hashed, this')
        | None \<Rightarrow> (Inr 0, this))"

definition set_count :: "'k CountMap \<Rightarrow> 'k \<Rightarrow> int \<Rightarrow> (error + int) \<times> 'k CountMap" where
  "set_count this key amount =
     (if \<not> allowNegativeCounts this \<and> amount < 0 then (Inl RangeError, this)
      else
        let hashed = call (hash this) key in
        case map_of (counts this) hashed of
          None \<Rightarrow>
            (case add this key amount of
               (Inl e, this') \<Rightarrow> (Inl e, this')
             | (Inr _, this') \<Rightarrow> (read_count this' hashed, this'))
        | Some entry \<Rightarrow>
            let this' = this\<lparr>counts := AList.update hashed
                               (entry\<lparr>obj_count := amount\<rparr>) (counts this)\<rparr>
            in (read_count this' hashed, this'))"

text \<open>
  A loop whose body may throw (\<^verbatim>\<open>for ... of\<close>, \<^verbatim>\<open>forEach\<close>): it stops at the first
  exception, with the mutations made so far.
\<close>

fun forEach :: "('s \<Rightarrow> 'a \<Rightarrow> (error + 'b) \<times> 's) \<Rightarrow> 'a list \<Rightarrow> 's \<Rightarrow> (error + unit) \<times> 's" where
  "forEach f [] s = (Inr (), s)"
| "forEach f (x # xs) s =
     (case f s x of
        (Inl e, s') \<Rightarrow> (Inl e, s')
      | (Inr _, s') \<Rightarrow> forEach f xs s')"

definition delete :: "'k CountMap \<Rightarrow> 'k \<Rightarrow> bool \<times> 'k CountMap" where
  "delete this key =
     (let hashed = call (hash this) key in
      case map_of (counts this) hashed of
        Some _ \<Rightarrow> (True, this\<lparr>counts := AList.delete hashed (counts this)\<rparr>)
      | None \<Rightarrow> (False, this))"

definition get :: "'k CountMap \<Rightarrow> 'k \<Rightarrow> int" where
  "get this key =
     (let hashed = call (hash this) key in
      case map_of (counts this) hashed of
        Some entry \<Rightarrow> obj_count entry
      | None \<Rightarrow> 0)"

definition has :: "'k CountMap \<Rightarrow> 'k \<Rightarrow> bool" where
  "has this key =
     (let hashed = call (hash this) key in map_of (counts this) hashed \<noteq> None)"

definition keys :: "'k CountMap \<Rightarrow> 'k list" where
  "keys this = map (\<lambda>val. obj_key val) (Object_values (counts this))"

definition entries :: "'k CountMap \<Rightarrow> ('k \<times> int) list" where
  "entries this = map (\<lambda>val. (obj_key val, obj_count val)) (Object_values (counts this))"

text \<open>
  \<^verbatim>\<open>concat(arr, inPlace)\<close> and the constructor call each other through \<^verbatim>\<open>clone\<close>; the
  in-place loop is the part they share. The first component of a result is the value
  returned, the second the receiver's state afterwards.
\<close>

definition add_each :: "'k CountMap \<Rightarrow> 'k list \<Rightarrow> (error + unit) \<times> 'k CountMap" where
  "add_each target arr = forEach (\<lambda>target key. add target key 1) arr target"

definition constructor :: "'k list \<Rightarrow> 'k hashFn \<Rightarrow> bool \<Rightarrow> error + 'k CountMap" where
  "constructor array hashFn allowNegative =
     (let this = \<lparr>counts = [], hash = hashFn, allowNegativeCounts = allowNegative,
                  count = None\<rparr>
      in case add_each this array of
           (Inl e, _) \<Rightarrow> Inl e
         | (Inr _, this') \<Rightarrow> Inr this')"

definition clone :: "'k CountMap \<Rightarrow> error + 'k CountMap" where
  "clone this =
     (case constructor [] (hash this) (allowNegativeCounts this) of
        Inl e \<Rightarrow> Inl e
      | Inr cloned \<Rightarrow>
          (case forEach (\<lambda>cloned (key, cnt). set_count cloned key cnt) (entries this) cloned of
             (Inl e, _) \<Rightarrow> Inl e
           | (Inr _, cloned') \<Rightarrow> Inr cloned'))"

definition concat_array ::
  "'k CountMap \<Rightarrow> 'k list \<Rightarrow> bool \<Rightarrow> (error + 'k CountMap) \<times> 'k CountMap" where
  "concat_array this arr inPlace =
     (if inPlace then
        (case add_each this arr of
           (Inl e, this') \<Rightarrow> (Inl e, this')
         | (Inr _, this') \<Rightarrow> (Inr this', this'))
      else
        (case clone this of
           Inl e \<Rightarrow> (Inl e, this)
         | Inr target \<Rightarrow>
             (case add_each target arr of
                (Inl e, _) \<Rightarrow> (Inl e, this)
              | (Inr _, target') \<Rightarrow> (Inr target', this))))"

text \<open>
  \<^verbatim>\<open>rehash\<close> assigns the fresh object to \<^verbatim>\<open>this.count\<close>; \<^verbatim>\<open>this.counts\<close> is not
  touched before the entries are added again.
\<close>

definition rehash :: "'k CountMap \<Rightarrow> (error + 'k CountMap) \<times> 'k CountMap" where
  "rehash this =
     (let entries = entries this;
          this1 = this\<lparr>count := Some []\<rparr>
      in case forEach (\<lambda>this (key, cnt). add this key cnt) entries this1 of
           (Inl e, this') \<Rightarrow> (Inl e, this')
         | (Inr _, this') \<Rightarrow> (Inr this', this'))"




definition equals :: "'k CountMap \<Rightarrow> 'k CountMap \<Rightarrow> bool" where
  "equals this other =
     (if toString (hash other) \<noteq> toString (hash this)
         \<or> allowNegativeCounts other \<noteq> allowNegativeCounts this
      then False
      else
        let otherKeys = keys other;
            thisKeys = keys this;
            testKey = (\<lambda>key. get this key = get other key);
            allKeysEqual = list_all testKey otherKeys \<and> list_all testKey thisKeys
        in allKeysEqual)"

subsection \<open>The fixtures of test/count-map.js\<close>

definition testItems :: "int list" where
  "testItems = [1, 1, 1, 2, 3, 4, 4, 4, 3, 3, 8, 1000, 2, 18]"

text \<open>
  \<^verbatim>\<open>new CountMap({ array: testItems })\<close> and its two variants. The constructor never
  throws (lemma \<open>constructor_returns\<close> below), so \<open>projr\<close> reads the instance.
\<close>

definition mapStandard :: "int CountMap" where
  "mapStandard = projr (constructor testItems default_hash False)"

definition mapHalf :: "int CountMap" where
  "mapHalf = projr (constructor testItems hashHalf False)"

definition mapNegative :: "int CountMap" where
  "mapNegative = projr (constructor testItems default_hash True)"

subsection \<open>Maps constructed with \<^verbatim>\<open>allowNegativeCounts = false\<close>\<close>

text \<open>
  The states such a map can be in: the state the constructor leaves, and every state that
  a mutating method leaves behind, whether it returns or throws. \<^verbatim>\<open>clone\<close> and
  \<^verbatim>\<open>concat\<close> without \<^verbatim>\<open>inPlace\<close> also hand out a new map, built by the same methods.
  The hash function may be assigned from outside (the reason \<^verbatim>\<open>rehash\<close> exists); the
  flag is not.
\<close>

inductive reachable :: "'k CountMap \<Rightarrow> bool" where
  constructed: "constructor array h False = Inr this \<Longrightarrow> reachable this"
| after_add: "reachable this \<Longrightarrow> reachable (snd (add this key amount))"
| after_subtract: "reachable this \<Longrightarrow> reachable (snd (subtract this key amount))"
| after_set: "reachable this \<Longrightarrow> reachable (snd (set_count this key amount))"
| after_concat: "reachable this \<Longrightarrow> reachable (snd (concat_array this arr inPlace))"
| concat_result:
    "reachable this \<Longrightarrow> fst (concat_array this arr inPlace) = Inr that \<Longrightarrow> reachable that"
| after_delete: "reachable this \<Longrightarrow> reachable (snd (delete this key))"
| clone_result: "reachable this \<Longrightarrow> clone this = Inr that \<Longrightarrow> reachable that"
| after_rehash: "reachable this \<Longrightarrow> reachable (snd (rehash this))"
| hash_assigned: "reachable this \<Longrightarrow> reachable (this\<lparr>hash := h\<rparr>)"

text \<open>The invariant: non-negative mode, and no stored count below zero.\<close>

definition stored_nonneg :: "'k CountMap \<Rightarrow> bool" where
  "stored_nonneg this \<longleftrightarrow>
     \<not> allowNegativeCounts this \<and> list_all (\<lambda>pv. 0 \<le> obj_count (snd pv)) (counts this)"

section \<open>The single-key methods on the JavaScript object model\<close>

text \<open>
  The definitions above describe the methods on the table's own records, for a hash
  function that returns a token, with integer arithmetic. This part describes the
  constructor, \<^verbatim>\<open>add\<close>, \<^verbatim>\<open>subtract\<close>, \<^verbatim>\<open>set\<close>, \<^verbatim>\<open>delete\<close>, \<^verbatim>\<open>get\<close> and \<^verbatim>\<open>has\<close>
  without these three restrictions:

  \<^item> \<^verbatim>\<open>this.counts\<close> is created by \<^verbatim>\<open>{}\<close>, so \<^verbatim>\<open>this.counts[hashed]\<close> also finds the
    members the table inherits from \<^verbatim>\<open>Object.prototype\<close>, and the methods read and write
    the \<^verbatim>\<open>count\<close> property of whatever they find;
  \<^item> the call \<^verbatim>\<open>this.hash(key)\<close> may throw;
  \<^item> numbers are IEEE doubles: a sum is rounded, and there are \<^verbatim>\<open>NaN\<close> and the infinities.
\<close>

subsection \<open>Numbers\<close>

text \<open>
  The numbers that arise from integer amounts: the integer-valued doubles, the two
  infinities and \<^verbatim>\<open>NaN\<close> (\<^verbatim>\<open>-0\<close> is not told apart from \<^verbatim>\<open>0\<close>). A property that is
  not there reads as \<^verbatim>\<open>undefined\<close>.
\<close>

datatype number = Finite int | Infinity | NegInfinity | NaN

datatype jsvalue = Undefined | Number number

text \<open>
  Rounding an integer to the nearest double, ties to the even significand. A double has
  53 significant bits, so the doubles around \<open>a \<ge> 2^53\<close> are the multiples of \<open>ulp a\<close>;
  from \<open>2^1024\<close> on the result is an infinity.
\<close>

function ulp :: "int \<Rightarrow> int" where
  "ulp a = (if a < 9007199254740992 then 1 else 2 * ulp (a div 2))"
  by pat_completeness auto
termination
  by (relation "measure nat") auto

declare ulp.simps [simp del]

definition round_double :: "int \<Rightarrow> number" where
  "round_double x =
     (let a = \<bar>x\<bar>;
          u = ulp a;
          q = a div u;
          r = a mod u;
          m = (if 2 * r < u then q else if 2 * r = u \<and> even q then q else q + 1) * u
      in if 2 ^ 1024 \<le> m then (if 0 < x then Infinity else NegInfinity)
         else Finite (if 0 < x then m else - m))"

text \<open>The operators \<^verbatim>\<open>+\<close>, unary and binary \<^verbatim>\<open>-\<close>, and \<^verbatim>\<open><\<close> on numbers.\<close>

fun num_add :: "number \<Rightarrow> number \<Rightarrow> number" where
  "num_add (Finite a) (Finite b) = round_double (a + b)"
| "num_add NaN _ = NaN"
| "num_add _ NaN = NaN"
| "num_add Infinity NegInfinity = NaN"
| "num_add NegInfinity Infinity = NaN"
| "num_add Infinity _ = Infinity"
| "num_add _ Infinity = Infinity"
| "num_add NegInfinity _ = NegInfinity"
| "num_add _ NegInfinity = NegInfinity"

fun num_neg :: "number \<Rightarrow> number" where
  "num_neg (Finite a) = Finite (- a)"
| "num_neg Infinity = NegInfinity"
| "num_neg NegInfinity = Infinity"
| "num_neg NaN = NaN"

definition num_sub :: "number \<Rightarrow> number \<Rightarrow> number" where
  "num_sub a b = num_add a (num_neg b)"

fun num_less :: "number \<Rightarrow> number \<Rightarrow> bool" where
  "num_less (Finite a) (Finite b) = (a < b)"
| "num_less NaN _ = False"
| "num_less _ NaN = False"
| "num_less NegInfinity NegInfinity = False"
| "num_less NegInfinity _ = True"
| "num_less _ NegInfinity = False"
| "num_less Infinity _ = False"
| "num_less _ Infinity = True"

text \<open>\<^verbatim>\<open>undefined\<close> in arithmetic and in a comparison is \<^verbatim>\<open>NaN\<close>.\<close>

fun ToNumber :: "jsvalue \<Rightarrow> number" where
  "ToNumber Undefined = NaN"
| "ToNumber (Number n) = n"

subsection \<open>Instances and the shared prototype\<close>

text \<open>
  What a call throws: one of the errors the engine or the class raises, or the value
  \<open>'x\<close> that a hash callback throws itself.
\<close>

datatype 'x exception = Error error | Thrown 'x

text \<open>The count object and the instance; the hash callback returns a token or throws.\<close>

record 'k countObject_js =
  hash_js :: string
  key_js :: 'k
  count_js :: number

record ('k, 'x) CountMap_js =
  counts_js :: "(string \<times> 'k countObject_js) list"
  hash_fn :: "'k \<Rightarrow> 'x exception + string"
  allowNegativeCounts_js :: bool

text \<open>
  \<^verbatim>\<open>Object.prototype\<close> is shared by every table. Its own properties are eleven built-in
  functions and the accessor \<^verbatim>\<open>__proto__\<close>, which yields \<^verbatim>\<open>Object.prototype\<close> itself.
  The only property this class ever writes on what it finds there is \<^verbatim>\<open>count\<close>: on one
  of the functions (\<open>function_count\<close>, by the member's name) or on \<^verbatim>\<open>Object.prototype\<close>
  (\<open>prototype_count\<close>). The environment is the standard one apart from these.
\<close>

record environment =
  function_count :: "(string \<times> number) list"
  prototype_count :: "number option"

definition standard_environment :: environment where
  "standard_environment = \<lparr>function_count = [], prototype_count = None\<rparr>"

definition Object_prototype_functions :: "string list" where
  "Object_prototype_functions =
     [''constructor'', ''__defineGetter__'', ''__defineSetter__'', ''hasOwnProperty'',
      ''__lookupGetter__'', ''__lookupSetter__'', ''isPrototypeOf'',
      ''propertyIsEnumerable'', ''toString'', ''valueOf'', ''toLocaleString'']"

text \<open>
  The value of \<^verbatim>\<open>this.counts[p]\<close>: an own record; else the built-in function or the
  prototype object that \<open>p\<close> names; else, for \<open>p = count\<close>, the number that
  \<^verbatim>\<open>Object.prototype.count\<close> holds once it has been written; else \<^verbatim>\<open>undefined\<close>.
\<close>

datatype 'k member =
  Record "'k countObject_js" | Function string | Prototype | Primitive number | Absent

type_synonym ('k, 'x) state = "('k, 'x) CountMap_js \<times> environment"

definition counts_get :: "('k, 'x) state \<Rightarrow> string \<Rightarrow> 'k member" where
  "counts_get st p =
     (case map_of (counts_js (fst st)) p of
        Some r \<Rightarrow> Record r
      | None \<Rightarrow>
          if p \<in> set Object_prototype_functions then Function p
          else if p = ''__proto__'' then Prototype
          else if p = ''count'' then
            (case prototype_count (snd st) of Some v \<Rightarrow> Primitive v | None \<Rightarrow> Absent)
          else Absent)"

text \<open>Objects are truthy; a number is falsy when it is \<^verbatim>\<open>NaN\<close> or zero.\<close>

fun truthy :: "'k member \<Rightarrow> bool" where
  "truthy (Record r) = True"
| "truthy (Function f) = True"
| "truthy Prototype = True"
| "truthy (Primitive v) = (v \<noteq> NaN \<and> v \<noteq> Finite 0)"
| "truthy Absent = False"

text \<open>
  Reading \<^verbatim>\<open>this.counts[p].count\<close>. A record has its own \<^verbatim>\<open>count\<close>; a built-in function
  has the one written on it, else the one it inherits from \<^verbatim>\<open>Object.prototype\<close>; a
  number is wrapped and inherits the same; \<^verbatim>\<open>undefined\<close> has no properties.
\<close>

definition inherited_count :: "environment \<Rightarrow> jsvalue" where
  "inherited_count env =
     (case prototype_count env of Some v \<Rightarrow> Number v | None \<Rightarrow> Undefined)"

definition get_count :: "('k, 'x) state \<Rightarrow> string \<Rightarrow> 'x exception + jsvalue" where
  "get_count st p =
     (case counts_get st p of
        Record r \<Rightarrow> Inr (Number (count_js r))
      | Function f \<Rightarrow>
          (case map_of (function_count (snd st)) f of
             Some v \<Rightarrow> Inr (Number v)
           | None \<Rightarrow> Inr (inherited_count (snd st)))
      | Prototype \<Rightarrow> Inr (inherited_count (snd st))
      | Primitive v \<Rightarrow> Inr (inherited_count (snd st))
      | Absent \<Rightarrow> Inl (Error TypeError))"

text \<open>
  Writing \<^verbatim>\<open>this.counts[p].count = v\<close>. Class bodies are strict code, so the assignment
  to a property of a number throws.
\<close>

definition put_count :: "('k, 'x) state \<Rightarrow> string \<Rightarrow> number \<Rightarrow> 'x exception + ('k, 'x) state" where
  "put_count st p v =
     (case counts_get st p of
        Record r \<Rightarrow>
          Inr ((fst st)\<lparr>counts_js := AList.update p (r\<lparr>count_js := v\<rparr>) (counts_js (fst st))\<rparr>,
               snd st)
      | Function f \<Rightarrow>
          Inr (fst st, (snd st)\<lparr>function_count := AList.update f v (function_count (snd st))\<rparr>)
      | Prototype \<Rightarrow> Inr (fst st, (snd st)\<lparr>prototype_count := Some v\<rparr>)
      | Primitive _ \<Rightarrow> Inl (Error TypeError)
      | Absent \<Rightarrow> Inl (Error TypeError))"

subsection \<open>Methods\<close>

definition add_js ::
  "('k, 'x) state \<Rightarrow> 'k \<Rightarrow> number \<Rightarrow> ('x exception + jsvalue) \<times> ('k, 'x) state" where
  "add_js st key amount =
     (if num_less amount (Finite 0) then (Inl (Error RangeError), st)
      else
        case hash_fn (fst st) key of
          Inl e \<Rightarrow> (Inl e, st)
        | Inr hashed \<Rightarrow>
            if \<not> truthy (counts_get st hashed) then
              let st' = ((fst st)\<lparr>counts_js := AList.update hashed
                            \<lparr>hash_js = hashed, key_js = key, count_js = amount\<rparr>
                            (counts_js (fst st))\<rparr>, snd st)
              in (get_count st' hashed, st')
            else
              (case get_count st hashed of
                 Inl e \<Rightarrow> (Inl e, st)
               | Inr old \<Rightarrow>
                   (case put_count st hashed (num_add (ToNumber old) amount) of
                      Inl e \<Rightarrow> (Inl e, st)
                    | Inr st' \<Rightarrow> (get_count st' hashed, st'))))"

definition subtract_js ::
  "('k, 'x) state \<Rightarrow> 'k \<Rightarrow> number \<Rightarrow> ('x exception + jsvalue) \<times> ('k, 'x) state" where
  "subtract_js st key amount =
     (if num_less amount (Finite 0) then (Inl (Error RangeError), st)
      else
        case hash_fn (fst st) key of
          Inl e \<Rightarrow> (Inl e, st)
        | Inr hashed \<Rightarrow>
            if truthy (counts_get st hashed) then
              (case get_count st hashed of
                 Inl e \<Rightarrow> (Inl e, st)
               | Inr old \<Rightarrow>
                   (case put_count st hashed (num_sub (ToNumber old) amount) of
                      Inl e \<Rightarrow> (Inl e, st)
                    | Inr st1 \<Rightarrow>
                        (case get_count st1 hashed of
                           Inl e \<Rightarrow> (Inl e, st1)
                         | Inr new \<Rightarrow>
                             if \<not> allowNegativeCounts_js (fst st1)
                                \<and> num_less (ToNumber new) (Finite 0)
                             then (case put_count st1 hashed (Finite 0) of
                                     Inl e \<Rightarrow> (Inl e, st1)
                                   | Inr st2 \<Rightarrow> (get_count st2 hashed, st2))
                             else (get_count st1 hashed, st1))))
            else (Inr (Number (Finite 0)), st))"

definition set_js ::
  "('k, 'x) state \<Rightarrow> 'k \<Rightarrow> number \<Rightarrow> ('x exception + jsvalue) \<times> ('k, 'x) state" where
  "set_js st key amount =
     (if \<not> allowNegativeCounts_js (fst st) \<and> num_less amount (Finite 0)
      then (Inl (Error RangeError), st)
      else
        case hash_fn (fst st) key of
          Inl e \<Rightarrow> (Inl e, st)
        | Inr hashed \<Rightarrow>
            if \<not> truthy (counts_get st hashed) then
              (case add_js st key amount of
                 (Inl e, st') \<Rightarrow> (Inl e, st')
               | (Inr _, st') \<Rightarrow> (get_count st' hashed, st'))
            else
              (case put_count st hashed amount of
                 Inl e \<Rightarrow> (Inl e, st)
               | Inr st' \<Rightarrow> (get_count st' hashed, st')))"

definition delete_js :: "('k, 'x) state \<Rightarrow> 'k \<Rightarrow> ('x exception + bool) \<times> ('k, 'x) state" where
  "delete_js st key =
     (case hash_fn (fst st) key of
        Inl e \<Rightarrow> (Inl e, st)
      | Inr hashed \<Rightarrow>
          if truthy (counts_get st hashed) then
            (Inr True,
             ((fst st)\<lparr>counts_js := AList.delete hashed (counts_js (fst st))\<rparr>, snd st))
          else (Inr False, st))"

definition get_js :: "('k, 'x) state \<Rightarrow> 'k \<Rightarrow> 'x exception + jsvalue" where
  "get_js st key =
     (case hash_fn (fst st) key of
        Inl e \<Rightarrow> Inl e
      | Inr hashed \<Rightarrow>
          if truthy (counts_get st hashed) then get_count st hashed
          else Inr (Number (Finite 0)))"

definition has_js :: "('k, 'x) state \<Rightarrow> 'k \<Rightarrow> 'x exception + bool" where
  "has_js st key =
     (case hash_fn (fst st) key of
        Inl e \<Rightarrow> Inl e
      | Inr hashed \<Rightarrow> Inr (counts_get st hashed \<noteq> Absent))"

text \<open>The in-place \<^verbatim>\<open>concat\<close>, and the constructor that calls it on the empty table.\<close>

fun concat_js :: "('k, 'x) state \<Rightarrow> 'k list \<Rightarrow> ('x exception + unit) \<times> ('k, 'x) state" where
  "concat_js st [] = (Inr (), st)"
| "concat_js st (key # arr) =
     (case add_js st key (Finite 1) of
        (Inl e, st') \<Rightarrow> (Inl e, st')
      | (Inr _, st') \<Rightarrow> concat_js st' arr)"

definition constructor_js ::
  "'k list \<Rightarrow> ('k \<Rightarrow> 'x exception + string) \<Rightarrow> bool \<Rightarrow> environment
     \<Rightarrow> ('x exception + unit) \<times> ('k, 'x) state" where
  "constructor_js array hashFn allowNegative env =
     concat_js (\<lparr>counts_js = [], hash_fn = hashFn, allowNegativeCounts_js = allowNegative\<rparr>, env)
       array"

text \<open>
  Keys for the scenarios below, and the constructor's default hash
  \<^verbatim>\<open>(key) => key.toString()\<close> on them: \<^verbatim>\<open>null\<close> and \<^verbatim>\<open>undefined\<close> have no
  \<^verbatim>\<open>toString\<close>, so the call throws a \<^verbatim>\<open>TypeError\<close>.
\<close>

datatype jskey = KNull | KUndefined | KString string | KNumber int

definition default_hash_js :: "jskey \<Rightarrow> 'x exception + string" where
  "default_hash_js key =
     (case key of
        KNull \<Rightarrow> Inl (Error TypeError)
      | KUndefined \<Rightarrow> Inl (Error TypeError)
      | KString s \<Rightarrow> Inr s
      | KNumber i \<Rightarrow> Inr (Number_toString i))"

text \<open>
  \<^verbatim>\<open>new CountMap({})\<close> and \<^verbatim>\<open>new CountMap({ array: testItems })\<close> in the standard
  environment.
\<close>

definition empty_js :: "(jskey, unit) state" where
  "empty_js = snd (constructor_js [] default_hash_js False standard_environment)"

definition mapStandard_js :: "(jskey, unit) state" where
  "mapStandard_js =
     snd (constructor_js (map KNumber testItems) default_hash_js False standard_environment)"

text \<open>
  A key is plain when the hash function returns on it a token that is not the name of a
  member of \<^verbatim>\<open>Object.prototype\<close>.
\<close>

definition prototype_member :: "environment \<Rightarrow> string \<Rightarrow> bool" where
  "prototype_member env p \<longleftrightarrow>
     p \<in> set Object_prototype_functions \<or> p = ''__proto__''
     \<or> (p = ''count'' \<and> prototype_count env \<noteq> None)"
definition plain_key :: "('k, 'x) state \<Rightarrow> 'k \<Rightarrow> bool" where
  "plain_key st key =
     (case hash_fn (fst st) key of
        Inl e \<Rightarrow> False
      | Inr hashed \<Rightarrow> \<not> prototype_member (snd st) hashed)"

text \<open>A sequence of \<^verbatim>\<open>add(key, amount)\<close> calls, stopped by the first that throws.\<close>

fun add_all_js ::
  "('k, 'x) state \<Rightarrow> ('k \<times> number) list \<Rightarrow> ('x exception + unit) \<times> ('k, 'x) state" where
  "add_all_js st [] = (Inr (), st)"
| "add_all_js st ((key, amount) # ops) =
     (case add_js st key amount of
        (Inl e, st') \<Rightarrow> (Inl e, st')
      | (Inr _, st') \<Rightarrow> add_all_js st' ops)"

text \<open>
  A map of the first part, seen as a state of this part: the same records with their
  integer counts as doubles, its hash function as one that always returns, in a given
  environment.
\<close>

definition to_js_object :: "'k countObject \<Rightarrow> 'k countObject_js" where
  "to_js_object r = \<lparr>hash_js = obj_hash r, key_js = obj_key r, count_js = Finite (obj_count r)\<rparr>"

definition to_js :: "'k CountMap \<Rightarrow> environment \<Rightarrow> ('k, 'x) state" where
  "to_js this env =
     (\<lparr>counts_js = map (\<lambda>(p, r). (p, to_js_object r)) (counts this),
       hash_fn = (\<lambda>key. Inr (call (hash this) key)),
       allowNegativeCounts_js = allowNegativeCounts this\<rparr>, env)"

section \<open>Properties\<close>

subsection \<open>What each single-key method does to the table\<close>

lemma hash_add [simp]: "hash (snd (add this key amount)) = hash this"
  by (simp add: add_def Let_def split: option.split)

lemma allowNegativeCounts_add [simp]:
  "allowNegativeCounts (snd (add this key amount)) = allowNegativeCounts this"
  by (simp add: add_def Let_def split: option.split)

lemma add_negative: "amount < 0 \<Longrightarrow> add this key amount = (Inl RangeError, this)"
  by (simp add: add_def)

lemma map_of_counts_add:
  "0 \<le> amount \<Longrightarrow>
   map_of (counts (snd (add this key amount))) =
   (map_of (counts this))(call (hash this) key \<mapsto>
      (case map_of (counts this) (call (hash this) key) of
         None \<Rightarrow> \<lparr>obj_hash = call (hash this) key, obj_key = key, obj_count = amount\<rparr>
       | Some entry \<Rightarrow> entry\<lparr>obj_count := obj_count entry + amount\<rparr>))"
  by (simp add: add_def Let_def update_conv' split: option.split)

lemma fst_add: "0 \<le> amount \<Longrightarrow> fst (add this key amount) = Inr (get this key + amount)"
  by (simp add: add_def Let_def read_count_def get_def update_conv' split: option.split)

lemma hash_subtract [simp]: "hash (snd (subtract this key amount)) = hash this"
  by (simp add: subtract_def Let_def split: option.split)

lemma allowNegativeCounts_subtract [simp]:
  "allowNegativeCounts (snd (subtract this key amount)) = allowNegativeCounts this"
  by (simp add: subtract_def Let_def split: option.split)

lemma subtract_negative: "amount < 0 \<Longrightarrow> subtract this key amount = (Inl RangeError, this)"
  by (simp add: subtract_def)

lemma map_of_counts_subtract:
  "0 \<le> amount \<Longrightarrow>
   map_of (counts (snd (subtract this key amount))) =
   (case map_of (counts this) (call (hash this) key) of
      None \<Rightarrow> map_of (counts this)
    | Some entry \<Rightarrow> (map_of (counts this))(call (hash this) key \<mapsto>
        entry\<lparr>obj_count :=
          (if \<not> allowNegativeCounts this \<and> obj_count entry - amount < 0 then 0
           else obj_count entry - amount)\<rparr>))"
  by (simp add: subtract_def Let_def update_conv' split: option.split)

lemma fst_subtract:
  "0 \<le> amount \<Longrightarrow>
   fst (subtract this key amount) =
   Inr (if has this key
        then (if \<not> allowNegativeCounts this \<and> get this key - amount < 0 then 0
              else get this key - amount)
        else 0)"
  by (simp add: subtract_def Let_def read_count_def get_def has_def update_conv'
           split: option.split)

lemma get_subtract:
  "0 \<le> amount \<Longrightarrow>
   get (snd (subtract this key amount)) k =
   (if call (hash this) k = call (hash this) key \<and> has this key
    then (if \<not> allowNegativeCounts this \<and> get this k - amount < 0 then 0
          else get this k - amount)
    else get this k)"
  by (auto simp add: get_def has_def map_of_counts_subtract split: option.split)

lemma has_subtract: "has (snd (subtract this key amount)) k = has this k"
  by (cases "amount < 0")
     (auto simp add: subtract_negative has_def map_of_counts_subtract split: option.split)

lemma hash_set_count [simp]: "hash (snd (set_count this key amount)) = hash this"
  by (simp add: set_count_def add_def Let_def split: option.split sum.split prod.split)

lemma allowNegativeCounts_set_count [simp]:
  "allowNegativeCounts (snd (set_count this key amount)) = allowNegativeCounts this"
  by (simp add: set_count_def add_def Let_def split: option.split sum.split prod.split)

lemma set_count_rejected:
  "\<not> allowNegativeCounts this \<Longrightarrow> amount < 0 \<Longrightarrow>
   set_count this key amount = (Inl RangeError, this)"
  by (simp add: set_count_def)

text \<open>
  In negative mode the guard of \<^verbatim>\<open>set\<close> lets a negative amount through, and for an
  absent token the call is handed to \<^verbatim>\<open>add\<close>, whose own guard throws.
\<close>

lemma set_count_absent_negative:
  "allowNegativeCounts this \<Longrightarrow> amount < 0 \<Longrightarrow> \<not> has this key \<Longrightarrow>
   set_count this key amount = (Inl RangeError, this)"
  by (simp add: set_count_def has_def add_def)

lemma hash_delete [simp]: "hash (snd (delete this key)) = hash this"
  by (simp add: delete_def Let_def split: option.split)

lemma allowNegativeCounts_delete [simp]:
  "allowNegativeCounts (snd (delete this key)) = allowNegativeCounts this"
  by (simp add: delete_def Let_def split: option.split)

subsection \<open>The loops never throw on amount 1\<close>

lemma add_each_returns: "\<exists>this'. add_each this arr = (Inr (), this')"
proof (induction arr arbitrary: this)
  case Nil
  show ?case by (simp add: add_each_def)
next
  case (Cons key arr)
  have "fst (add this key 1) = Inr (get this key + 1)"
    by (simp add: fst_add)
  then obtain this1 where a: "add this key 1 = (Inr (get this key + 1), this1)"
    by (cases "add this key 1") simp
  from Cons.IH [of this1] show ?case
    using a by (simp add: add_each_def)
qed

lemma constructor_returns: "\<exists>this. constructor array h neg = Inr this"
proof -
  obtain this' where
    "add_each \<lparr>counts = [], hash = h, allowNegativeCounts = neg, count = None\<rparr> array
       = (Inr (), this')"
    using add_each_returns by blast
  then show ?thesis by (simp add: constructor_def)
qed

lemma sum_is_Inl: "isl x \<Longrightarrow> projl x = e \<Longrightarrow> x = Inl e"
  by (cases x) simp_all

text \<open>The constructor is the in-place \<^verbatim>\<open>concat\<close> on the new, empty instance.\<close>

lemma constructor_concat:
  "constructor array h neg =
   (case concat_array \<lparr>counts = [], hash = h, allowNegativeCounts = neg, count = None\<rparr>
           array True of
      (Inl e, _) \<Rightarrow> Inl e
    | (Inr this', _) \<Rightarrow> Inr this')"
  by (simp add: constructor_def concat_array_def split: prod.split sum.split)

text \<open>What holds before a loop and is kept by each call of its body holds after it.\<close>

lemma forEach_invariant:
  assumes "\<And>s x. P s \<Longrightarrow> P (snd (f s x))" and "P s"
  shows "P (snd (forEach f xs s))"
  using assms(2)
proof (induction xs arbitrary: s)
  case Nil
  then show ?case by simp
next
  case (Cons x xs)
  from assms(1) [OF Cons.prems, of x] have p: "P (snd (f s x))" .
  show ?case
  proof (cases "f s x")
    case (Pair r s')
    with p have "P s'" by simp
    with Pair Cons.IH [of s'] show ?thesis
      by (cases r) simp_all
  qed
qed

lemma add_each_fields:
  "hash (snd (add_each this arr)) = hash this \<and>
   allowNegativeCounts (snd (add_each this arr)) = allowNegativeCounts this"
  unfolding add_each_def
  by (rule forEach_invariant
        [where P = "\<lambda>s. hash s = hash this \<and> allowNegativeCounts s = allowNegativeCounts this"])
     simp_all

lemma constructor_projr: "constructor array h neg = Inr (projr (constructor array h neg))"
  using constructor_returns [of array h neg] by auto

lemma constructor_eq:
  "projr (constructor array h neg) =
   snd (add_each \<lparr>counts = [], hash = h, allowNegativeCounts = neg, count = None\<rparr> array)"
  using add_each_returns
    [of "\<lparr>counts = [], hash = h, allowNegativeCounts = neg, count = None\<rparr>" array]
  by (auto simp add: constructor_def)

lemma constructor_fields:
  "hash (projr (constructor array h neg)) = h \<and>
   allowNegativeCounts (projr (constructor array h neg)) = neg"
  by (simp add: constructor_eq add_each_fields)

subsection \<open>\<^verbatim>\<open>set\<close> with a negative amount\<close>

lemma empty_negative_map:
  "allowNegativeCounts (projr (constructor ([] :: int list) default_hash True)) \<and>
   \<not> has (projr (constructor [] default_hash True)) 8"
  by code_simp

text \<open>
  The scenario of the test suite, where the token of 8 has a record in both maps:
  \<^verbatim>\<open>mapStandard.set(8, -3)\<close> throws, \<^verbatim>\<open>mapNegative.set(8, -3)\<close> stores \<open>-3\<close>.
\<close>

lemma set_negative_test_scenario:
  "set_count mapStandard 8 (- 3) = (Inl RangeError, mapStandard) \<and>
   fst (set_count mapNegative 8 (- 3)) = Inr (- 3) \<and>
   get (snd (set_count mapNegative 8 (- 3))) 8 = - 3"
proof -
  have "\<not> allowNegativeCounts mapStandard"
    by (simp add: mapStandard_def constructor_fields)
  then have "set_count mapStandard 8 (- 3) = (Inl RangeError, mapStandard)"
    by (simp add: set_count_rejected)
  moreover have "fst (set_count mapNegative 8 (- 3)) = Inr (- 3) \<and>
     get (snd (set_count mapNegative 8 (- 3))) 8 = - 3"
    by code_simp
  ultimately show ?thesis by simp
qed

text \<open>
  Claim C2 says that in negative mode \<^verbatim>\<open>set(key, amount)\<close> with a negative amount
  succeeds whether or not the key's token has a record. On a map built with
  \<^verbatim>\<open>allowNegativeCounts: true\<close> and no record for 8, \<^verbatim>\<open>set(8, -3)\<close> throws the
  \<^verbatim>\<open>RangeError\<close> of \<^verbatim>\<open>add\<close> and stores nothing.
\<close>

theorem set_negative_on_absent_key_raises:
  "set_count (projr (constructor [] default_hash True)) 8 (- 3) =
   (Inl RangeError, projr (constructor [] default_hash True))"
  using empty_negative_map by (simp add: set_count_absent_negative)

subsection \<open>\<^verbatim>\<open>rehash\<close> does not start from an empty table\<close>

text \<open>
  Whatever the hash function has become, every token of the old table still has a record
  after \<^verbatim>\<open>rehash()\<close>.
\<close>

lemma add_keeps_tokens:
  "map_of (counts this) t \<noteq> None \<Longrightarrow> map_of (counts (snd (add this key amount))) t \<noteq> None"
  by (cases "amount < 0") (simp_all add: add_negative map_of_counts_add)

lemma rehash_keeps_tokens:
  assumes "map_of (counts this) t \<noteq> None"
  shows "map_of (counts (snd (rehash this))) t \<noteq> None"
proof -
  let ?P = "\<lambda>s. map_of (counts s) t \<noteq> None"
  let ?f = "\<lambda>this (key, cnt). add this key cnt"
  have step: "\<And>s x. ?P s \<Longrightarrow> ?P (snd (?f s x))"
    by (simp add: split_def add_keeps_tokens)
  from assms have start: "?P (this\<lparr>count := Some []\<rparr>)" by simp
  have "?P (snd (forEach ?f (entries this) (this\<lparr>count := Some []\<rparr>)))"
    by (rule forEach_invariant [of ?P ?f, OF step start])
  then show ?thesis
    by (auto simp add: rehash_def Let_def split: sum.splits prod.splits)
qed

text \<open>
  Claim C1 says that \<^verbatim>\<open>rehash()\<close> rebuilds the table from scratch. With keys 2 and 3
  stored under the default hash, the hash changed to \<^verbatim>\<open>hashHalf\<close> and \<^verbatim>\<open>rehash()\<close>
  called, the table holds three records: the two old ones, under their old tokens
  \<^verbatim>\<open>"2"\<close> and \<^verbatim>\<open>"3"\<close>, and a new one under \<^verbatim>\<open>"1"\<close>; the old record \<^verbatim>\<open>"2"\<close> has received
  the count of key 3. With the hash unchanged, \<^verbatim>\<open>rehash()\<close> doubles a count.
\<close>

theorem rehash_keeps_old_records:
  "entries (snd (rehash ((projr (constructor [2, 3] default_hash False))\<lparr>hash := hashHalf\<rparr>)))
     = [(2, 1), (2, 2), (3, 1)] \<and>
   map fst (counts (snd (rehash
      ((projr (constructor [2, 3] default_hash False))\<lparr>hash := hashHalf\<rparr>))))
     = [''2'', ''3'', ''1''] \<and>
   get (snd (rehash (projr (constructor [1] default_hash False)))) 1 = 2"
  by code_simp

subsection \<open>\<^verbatim>\<open>clone\<close> of a map that holds a negative count\<close>

text \<open>
  Claim C8 says that \<^verbatim>\<open>clone()\<close> returns an equal map for every map. In negative mode,
  after \<^verbatim>\<open>subtract(8, 200)\<close> has taken the count of 8 to \<open>-199\<close>, \<^verbatim>\<open>clone()\<close> throws:
  it replays the entry with \<^verbatim>\<open>set\<close> on the empty clone, which hands it to \<^verbatim>\<open>add\<close>.
\<close>

theorem clone_of_negative_count_raises:
  "get (snd (subtract (projr (constructor [8] default_hash True)) 8 200)) 8 = - 199 \<and>
   clone (snd (subtract (projr (constructor [8] default_hash True)) 8 200)) = Inl RangeError"
proof -
  have "isl (clone (snd (subtract (projr (constructor [8] default_hash True)) 8 200)))"
    by code_simp
  moreover have
    "projl (clone (snd (subtract (projr (constructor [8] default_hash True)) 8 200)))
       = RangeError"
    by code_simp
  moreover have
    "get (snd (subtract (projr (constructor [8] default_hash True)) 8 200)) 8 = - 199"
    by code_simp
  ultimately show ?thesis by (simp add: sum_is_Inl)
qed

subsection \<open>\<^verbatim>\<open>Object.values\<close> lists every record once\<close>

lemma set_Object_values: "set (Object_values obj) = snd ` set obj"
proof -
  have "set (Object_values obj) =
        snd ` ({x \<in> set obj. array_index (fst x) \<noteq> None}
               \<union> {x \<in> set obj. array_index (fst x) = None})"
    by (simp add: Object_values_def image_Un)
  also have "{x \<in> set obj. array_index (fst x) \<noteq> None}
               \<union> {x \<in> set obj. array_index (fst x) = None} = set obj"
    by auto
  finally show ?thesis .
qed













subsection \<open>\<^verbatim>\<open>equals\<close>\<close>

lemma set_keys: "set (keys this) = obj_key ` snd ` set (counts this)"
  by (simp add: keys_def set_Object_values)

lemma equals_iff:
  "equals this other \<longleftrightarrow>
     toString (hash this) = toString (hash other) \<and>
     allowNegativeCounts this = allowNegativeCounts other \<and>
     (\<forall>key \<in> set (keys this) \<union> set (keys other). get this key = get other key)"
  by (auto simp add: equals_def Let_def list_all_iff)

lemma equals_sym: "equals this other = equals other this"
  by (auto simp add: equals_iff)

text \<open>
  Claim C7. \<^verbatim>\<open>A.equals(B)\<close> is true if and only if the two hash functions have the same
  source text, the two flags agree, and \<^verbatim>\<open>get\<close> gives the same count in both maps on
  every representative key of either map; hence \<^verbatim>\<open>A.equals(B) = B.equals(A)\<close>. The
  representative keys are those of the stored records. Two maps built from the same array,
  hash function and flag are equal; maps built with different flags, or with hash functions
  of different text (whatever they compute), are not.
\<close>

theorem equals_characterisation:
  "(equals A B \<longleftrightarrow>
      toString (hash A) = toString (hash B) \<and>
      allowNegativeCounts A = allowNegativeCounts B \<and>
      (\<forall>key \<in> set (keys A) \<union> set (keys B). get A key = get B key)) \<and>
   equals A B = equals B A \<and>
   set (keys A) = obj_key ` snd ` set (counts A) \<and>
   equals (projr (constructor array h neg)) (projr (constructor array h neg)) \<and>
   (neg \<noteq> neg' \<or> toString h \<noteq> toString h' \<longrightarrow>
      \<not> equals (projr (constructor array h neg)) (projr (constructor array h' neg')))"
proof -
  have "equals (projr (constructor array h neg)) (projr (constructor array h neg))"
    by (simp add: equals_iff)
  moreover have "neg \<noteq> neg' \<or> toString h \<noteq> toString h' \<longrightarrow>
      \<not> equals (projr (constructor array h neg)) (projr (constructor array h' neg'))"
    by (auto simp add: equals_iff constructor_fields)
  moreover have "equals A B = equals B A" by (rule equals_sym)
  ultimately show ?thesis
    using equals_iff [of A B] set_keys [of A] by blast
qed


text \<open>
  The witness compares \<^verbatim>\<open>mapStandard\<close> with itself, with \<^verbatim>\<open>mapNegative\<close>, and with a map
  whose hash function is written \<^verbatim>\<open>(key) => String(key)\<close>: the same function of integer
  keys under another text.
\<close>

theorem equals_characterisation_witness:
  "equals mapStandard mapStandard \<and> \<not> equals mapStandard mapNegative \<and>
   \<not> equals mapStandard
       (projr (constructor testItems (HashFn ''(key) => String(key)'' Number_toString) False)) \<and>
   call default_hash = call (HashFn ''(key) => String(key)'' Number_toString)"
  using
    equals_characterisation
      [of mapStandard mapStandard testItems default_hash False True default_hash]
    equals_characterisation
      [of mapStandard mapStandard testItems default_hash False False
          "HashFn ''(key) => String(key)'' Number_toString"]
  by (simp add: mapStandard_def mapNegative_def default_hash_def)

subsection \<open>Counts stay non-negative in non-negative mode\<close>

lemma list_all_update:
  "list_all P al \<Longrightarrow> P (k, v) \<Longrightarrow> list_all P (AList.update k v al)"
  by (induction al) auto

lemma list_all_delete: "list_all P al \<Longrightarrow> list_all P (AList.delete k al)"
  by (simp add: AList.delete_eq list_all_iff)

lemma map_of_list_all: "list_all P al \<Longrightarrow> map_of al k = Some v \<Longrightarrow> P (k, v)"
  by (auto simp add: list_all_iff dest: map_of_SomeD)

lemma stored_nonneg_add: "stored_nonneg this \<Longrightarrow> stored_nonneg (snd (add this key amount))"
  by (auto simp add: stored_nonneg_def add_def Let_def split: option.split
        intro!: list_all_update dest: map_of_list_all)

lemma stored_nonneg_subtract:
  "stored_nonneg this \<Longrightarrow> stored_nonneg (snd (subtract this key amount))"
  by (auto simp add: stored_nonneg_def subtract_def Let_def split: option.split
        intro!: list_all_update)

lemma stored_nonneg_set_count:
  "stored_nonneg this \<Longrightarrow> stored_nonneg (snd (set_count this key amount))"
proof (cases "0 \<le> amount")
  case False
  assume "stored_nonneg this"
  with False show ?thesis by (simp add: set_count_def stored_nonneg_def)
next
  case True
  assume s: "stored_nonneg this"
  show ?thesis
  proof (cases "map_of (counts this) (call (hash this) key)")
    case None
    have "snd (set_count this key amount) = snd (add this key amount)"
      using None True by (simp add: set_count_def Let_def split: prod.split sum.split)
    with s show ?thesis by (simp add: stored_nonneg_add)
  next
    case (Some entry)
    with s True show ?thesis
      by (auto simp add: set_count_def stored_nonneg_def Let_def intro!: list_all_update)
  qed
qed

lemma stored_nonneg_delete: "stored_nonneg this \<Longrightarrow> stored_nonneg (snd (delete this key))"
  by (auto simp add: stored_nonneg_def delete_def Let_def split: option.split
        intro!: list_all_delete)

lemma stored_nonneg_add_each: "stored_nonneg this \<Longrightarrow> stored_nonneg (snd (add_each this arr))"
  unfolding add_each_def
  by (rule forEach_invariant [where P = stored_nonneg]) (simp_all add: stored_nonneg_add)

lemma stored_nonneg_constructor:
  "constructor array h False = Inr this \<Longrightarrow> stored_nonneg this"
proof -
  assume c: "constructor array h False = Inr this"
  have "stored_nonneg \<lparr>counts = [], hash = h, allowNegativeCounts = False, count = None\<rparr>"
    by (simp add: stored_nonneg_def)
  then have "stored_nonneg (projr (constructor array h False))"
    unfolding constructor_eq by (rule stored_nonneg_add_each)
  with c show ?thesis by simp
qed

lemma stored_nonneg_clone:
  assumes "stored_nonneg this" and "clone this = Inr that"
  shows "stored_nonneg that"
proof -
  let ?f = "\<lambda>cloned (key, cnt). set_count cloned key cnt"
  from assms(1) have neg: "allowNegativeCounts this = False"
    by (simp add: stored_nonneg_def)
  have c0: "stored_nonneg (projr (constructor [] (hash this) False))"
    using stored_nonneg_constructor [OF constructor_projr] .
  have step: "\<And>s x. stored_nonneg s \<Longrightarrow> stored_nonneg (snd (?f s x))"
    by (simp add: split_def stored_nonneg_set_count)
  have "stored_nonneg (snd (forEach ?f (entries this) (projr (constructor [] (hash this) False))))"
    by (rule forEach_invariant [of stored_nonneg ?f, OF step c0])
  moreover have "that = snd (forEach ?f (entries this) (projr (constructor [] (hash this) False)))"
    using assms(2) constructor_projr [of "[]" "hash this" False]
    by (auto simp add: clone_def neg split: sum.splits prod.splits)
  ultimately show ?thesis by simp
qed

lemma stored_nonneg_concat:
  assumes "stored_nonneg this"
  shows "stored_nonneg (snd (concat_array this arr inPlace))"
    and "fst (concat_array this arr inPlace) = Inr that \<Longrightarrow> stored_nonneg that"
proof -
  show "stored_nonneg (snd (concat_array this arr inPlace))"
    using assms stored_nonneg_add_each [OF assms, of arr]
    by (auto simp add: concat_array_def split: sum.splits prod.splits)
  assume r: "fst (concat_array this arr inPlace) = Inr that"
  show "stored_nonneg that"
  proof (cases inPlace)
    case True
    with r stored_nonneg_add_each [OF assms, of arr] show ?thesis
      by (auto simp add: concat_array_def split: sum.splits prod.splits)
  next
    case False
    with r obtain target where t: "clone this = Inr target"
      and a: "that = snd (add_each target arr)"
      by (auto simp add: concat_array_def split: sum.splits prod.splits)
    from stored_nonneg_clone [OF assms t] show ?thesis
      unfolding a by (rule stored_nonneg_add_each)
  qed
qed

lemma stored_nonneg_rehash: "stored_nonneg this \<Longrightarrow> stored_nonneg (snd (rehash this))"
proof -
  assume s: "stored_nonneg this"
  let ?f = "\<lambda>this (key, cnt). add this key cnt"
  have step: "\<And>s x. stored_nonneg s \<Longrightarrow> stored_nonneg (snd (?f s x))"
    by (simp add: split_def stored_nonneg_add)
  from s have start: "stored_nonneg (this\<lparr>count := Some []\<rparr>)"
    by (simp add: stored_nonneg_def)
  have "stored_nonneg (snd (forEach ?f (entries this) (this\<lparr>count := Some []\<rparr>)))"
    by (rule forEach_invariant [of stored_nonneg ?f, OF step start])
  then show ?thesis
    by (auto simp add: rehash_def Let_def split: sum.splits prod.splits)
qed

lemma reachable_stored_nonneg: "reachable this \<Longrightarrow> stored_nonneg this"
proof (induction rule: reachable.induct)
  case (constructed array h this)
  then show ?case by (rule stored_nonneg_constructor)
next
  case (after_add this key amount)
  from after_add.IH show ?case by (rule stored_nonneg_add)
next
  case (after_subtract this key amount)
  from after_subtract.IH show ?case by (rule stored_nonneg_subtract)
next
  case (after_set this key amount)
  from after_set.IH show ?case by (rule stored_nonneg_set_count)
next
  case (after_concat this arr inPlace)
  from after_concat.IH show ?case by (rule stored_nonneg_concat(1))
next
  case (concat_result this arr inPlace that)
  from concat_result.IH concat_result.hyps(2) show ?case
    by (rule stored_nonneg_concat(2))
next
  case (after_delete this key)
  from after_delete.IH show ?case by (rule stored_nonneg_delete)
next
  case (clone_result this that)
  from clone_result.IH clone_result.hyps(2) show ?case
    by (rule stored_nonneg_clone)
next
  case (after_rehash this)
  from after_rehash.IH show ?case by (rule stored_nonneg_rehash)
next
  case (hash_assigned this h)
  then show ?case by (simp add: stored_nonneg_def)
qed

text \<open>
  Claim C3. In every state of a map constructed with \<^verbatim>\<open>allowNegativeCounts = false\<close>
  (after the constructor's bulk load and after any of \<^verbatim>\<open>add\<close>, \<^verbatim>\<open>subtract\<close>, \<^verbatim>\<open>set\<close>,
  \<^verbatim>\<open>concat\<close>, \<^verbatim>\<open>delete\<close>, \<^verbatim>\<open>clone\<close>, \<^verbatim>\<open>rehash\<close>) the flag is still false and every
  stored record has a count \<open>\<ge> 0\<close>. In particular, when \<^verbatim>\<open>subtract\<close> would take the count
  of an existing record below zero, it returns 0, stores 0 and keeps the record.
\<close>

theorem counts_never_negative:
  assumes "reachable this"
  shows "\<not> allowNegativeCounts this \<and>
         (\<forall>val \<in> snd ` set (counts this). 0 \<le> obj_count val) \<and>
         (has this key \<and> 0 \<le> amount \<and> get this key - amount < 0 \<longrightarrow>
            fst (subtract this key amount) = Inr 0 \<and>
            get (snd (subtract this key amount)) key = 0 \<and>
            has (snd (subtract this key amount)) key)"
proof -
  from reachable_stored_nonneg [OF assms]
  have n: "\<not> allowNegativeCounts this"
    and c: "\<forall>val \<in> snd ` set (counts this). 0 \<le> obj_count val"
    by (auto simp add: stored_nonneg_def list_all_iff)
  from n have "has this key \<and> 0 \<le> amount \<and> get this key - amount < 0 \<longrightarrow>
            fst (subtract this key amount) = Inr 0 \<and>
            get (snd (subtract this key amount)) key = 0 \<and>
            has (snd (subtract this key amount)) key"
    by (simp add: fst_subtract get_subtract has_subtract)
  with n c show ?thesis by blast
qed

lemma mapStandard_8: "has mapStandard 8 \<and> get mapStandard 8 = 1"
  by code_simp

theorem counts_never_negative_witness:
  "fst (subtract mapStandard 8 200) = Inr 0 \<and>
   get (snd (subtract mapStandard 8 200)) 8 = 0 \<and>
   has (snd (subtract mapStandard 8 200)) 8 \<and>
   \<not> allowNegativeCounts (snd (subtract mapStandard 8 200)) \<and>
   list_all (\<lambda>pv. 0 \<le> obj_count (snd pv)) (counts (snd (subtract mapStandard 8 200)))"
proof -
  have r: "reachable mapStandard"
    unfolding mapStandard_def by (rule reachable.constructed [OF constructor_projr])
  have r': "reachable (snd (subtract mapStandard 8 200))"
    by (rule reachable.after_subtract [OF r])
  show ?thesis
    using counts_never_negative [OF r, of 8 200] counts_never_negative [OF r', of 8 200]
      mapStandard_8
    by (simp add: list_all_iff)
qed

section \<open>Properties of the single-key methods on the object model\<close>

subsection \<open>Plain keys\<close>

text \<open>Up to \<open>2^53\<close> in magnitude every integer is a double.\<close>

lemma ulp_small: "a < 9007199254740992 \<Longrightarrow> ulp a = 1"
  by (subst ulp.simps) simp

lemma round_double_exact:
  assumes "\<bar>x\<bar> \<le> 9007199254740992"
  shows "round_double x = Finite x"
proof (cases "\<bar>x\<bar> < 9007199254740992")
  case True
  then show ?thesis
    by (auto simp add: round_double_def Let_def ulp_small)
next
  case False
  with assms have a: "\<bar>x\<bar> = 9007199254740992" by simp
  have u: "ulp 9007199254740992 = 2"
    by (subst ulp.simps) (simp add: ulp_small)
  show ?thesis
    using a by (auto simp add: round_double_def Let_def u)
qed

text \<open>
  On a plain key the lookup finds the key's own record or nothing, and the methods work on
  the table alone.
\<close>

lemma counts_get_plain:
  "\<not> prototype_member (snd st) p \<Longrightarrow>
   counts_get st p =
   (case map_of (counts_js (fst st)) p of Some r \<Rightarrow> Record r | None \<Rightarrow> Absent)"
  by (auto simp add: counts_get_def prototype_member_def split: option.split)

lemma counts_get_update_same:
  "counts_get (this\<lparr>counts_js := AList.update p r (counts_js this)\<rparr>, env) p = Record r"
  by (simp add: counts_get_def update_conv')

lemma get_js_plain:
  assumes "hash_fn (fst st) key = Inr t" and "\<not> prototype_member (snd st) t"
  shows "get_js st key =
         Inr (Number (case map_of (counts_js (fst st)) t of
                        Some r \<Rightarrow> count_js r | None \<Rightarrow> Finite 0))"
  using assms
  by (simp add: get_js_def counts_get_plain get_count_def split: option.split)

lemma has_js_plain:
  assumes "hash_fn (fst st) key = Inr t" and "\<not> prototype_member (snd st) t"
  shows "has_js st key = Inr (map_of (counts_js (fst st)) t \<noteq> None)"
  using assms
  by (simp add: has_js_def counts_get_plain split: option.split)

lemma add_js_plain:
  assumes "hash_fn (fst st) key = Inr t" and "\<not> prototype_member (snd st) t"
    and "\<not> num_less amount (Finite 0)"
  shows "add_js st key amount =
         (Inr (Number (case map_of (counts_js (fst st)) t of
                         Some r \<Rightarrow> num_add (count_js r) amount | None \<Rightarrow> amount)),
          ((fst st)\<lparr>counts_js := AList.update t
              (case map_of (counts_js (fst st)) t of
                 Some r \<Rightarrow> r\<lparr>count_js := num_add (count_js r) amount\<rparr>
               | None \<Rightarrow> \<lparr>hash_js = t, key_js = key, count_js = amount\<rparr>)
              (counts_js (fst st))\<rparr>, snd st))"
proof (cases "map_of (counts_js (fst st)) t")
  case None
  with assms show ?thesis
    by (simp add: add_js_def counts_get_plain get_count_def counts_get_update_same Let_def)
next
  case (Some r)
  with assms show ?thesis
    by (simp add: add_js_def counts_get_plain get_count_def put_count_def
          counts_get_update_same)
qed

lemma subtract_js_plain:
  assumes "hash_fn (fst st) key = Inr t" and "\<not> prototype_member (snd st) t"
    and "\<not> num_less amount (Finite 0)"
  shows "\<exists>v st'. subtract_js st key amount = (Inr v, st')"
proof (cases "map_of (counts_js (fst st)) t")
  case None
  with assms show ?thesis
    by (simp add: subtract_js_def counts_get_plain)
next
  case (Some r)
  with assms show ?thesis
    by (simp add: subtract_js_def counts_get_plain get_count_def put_count_def
          counts_get_update_same)
qed

lemma plain_keyD:
  "plain_key st key \<Longrightarrow> \<exists>t. hash_fn (fst st) key = Inr t \<and> \<not> prototype_member (snd st) t"
  by (auto simp add: plain_key_def split: sum.splits)

lemma add_js_negative:
  "num_less amount (Finite 0) \<Longrightarrow> add_js st key amount = (Inl (Error RangeError), st)"
  by (simp add: add_js_def)

lemma subtract_js_negative:
  "num_less amount (Finite 0) \<Longrightarrow> subtract_js st key amount = (Inl (Error RangeError), st)"
  by (simp add: subtract_js_def)

lemma add_js_hash_raises:
  "\<not> num_less amount (Finite 0) \<Longrightarrow> hash_fn (fst st) key = Inl e \<Longrightarrow>
   add_js st key amount = (Inl e, st)"
  by (simp add: add_js_def)

lemma subtract_js_hash_raises:
  "\<not> num_less amount (Finite 0) \<Longrightarrow> hash_fn (fst st) key = Inl e \<Longrightarrow>
   subtract_js st key amount = (Inl e, st)"
  by (simp add: subtract_js_def)

subsection \<open>Errors of \<^verbatim>\<open>add\<close> and \<^verbatim>\<open>subtract\<close>\<close>

text \<open>
  Claim C5 says that \<^verbatim>\<open>add\<close> and \<^verbatim>\<open>subtract\<close> throw if and only if the amount is
  negative, and that no other input makes them throw. Under the default hash,
  \<^verbatim>\<open>add(null, 1)\<close> and \<^verbatim>\<open>subtract(null, 1)\<close> on an empty map throw a \<^verbatim>\<open>TypeError\<close>,
  although the amount is not negative: \<^verbatim>\<open>this.hash(key)\<close> throws it.
\<close>

theorem add_raises_with_nonnegative_amount:
  "\<not> num_less (Finite 1) (Finite 0) \<and>
   fst (add_js empty_js KNull (Finite 1)) = Inl (Error TypeError) \<and>
   fst (subtract_js empty_js KNull (Finite 1)) = Inl (Error TypeError)"
  by code_simp

text \<open>
  Claim C5, amended. With a negative amount, \<^verbatim>\<open>add\<close> and \<^verbatim>\<open>subtract\<close> throw a
  \<^verbatim>\<open>RangeError\<close>, whatever \<^verbatim>\<open>allowNegativeCounts\<close> is, before the hash function is called
  and with nothing changed. With any other amount, if the hash function throws on the key
  they throw what it throws, again with nothing changed; and on a plain key they throw
  nothing.
\<close>

theorem add_subtract_errors:
  "(num_less amount (Finite 0) \<longrightarrow>
      add_js st key amount = (Inl (Error RangeError), st) \<and>
      subtract_js st key amount = (Inl (Error RangeError), st)) \<and>
   (\<not> num_less amount (Finite 0) \<and> hash_fn (fst st) key = Inl e \<longrightarrow>
      add_js st key amount = (Inl e, st) \<and> subtract_js st key amount = (Inl e, st)) \<and>
   (\<not> num_less amount (Finite 0) \<and> plain_key st key \<longrightarrow>
      (\<exists>v st'. add_js st key amount = (Inr v, st')) \<and>
      (\<exists>v st'. subtract_js st key amount = (Inr v, st')))"
proof -
  have "\<not> num_less amount (Finite 0) \<and> plain_key st key \<longrightarrow>
      (\<exists>v st'. add_js st key amount = (Inr v, st')) \<and>
      (\<exists>v st'. subtract_js st key amount = (Inr v, st'))"
  proof (intro impI, elim conjE)
    assume a: "\<not> num_less amount (Finite 0)" and p: "plain_key st key"
    from plain_keyD [OF p] obtain t where
      t: "hash_fn (fst st) key = Inr t" "\<not> prototype_member (snd st) t" by blast
    from add_js_plain [OF t a] subtract_js_plain [OF t a]
    show "(\<exists>v st'. add_js st key amount = (Inr v, st')) \<and>
          (\<exists>v st'. subtract_js st key amount = (Inr v, st'))"
      by blast
  qed
  then show ?thesis
    by (simp add: add_js_negative subtract_js_negative add_js_hash_raises
          subtract_js_hash_raises)
qed

lemma empty_js_plain: "plain_key empty_js (KNumber 8) \<and> hash_fn (fst empty_js) KNull = Inl (Error TypeError)"
  by code_simp

theorem add_subtract_errors_witness:
  "add_js empty_js (KNumber 8) (Finite (- 3)) = (Inl (Error RangeError), empty_js) \<and>
   subtract_js empty_js (KNumber 8) (Finite (- 3)) = (Inl (Error RangeError), empty_js) \<and>
   add_js empty_js KNull (Finite 1) = (Inl (Error TypeError), empty_js) \<and>
   subtract_js empty_js KNull (Finite 1) = (Inl (Error TypeError), empty_js) \<and>
   (\<exists>v st'. add_js empty_js (KNumber 8) (Finite 3) = (Inr v, st')) \<and>
   (\<exists>v st'. subtract_js empty_js (KNumber 8) (Finite 3) = (Inr v, st'))"
  using add_subtract_errors [of "Finite (- 3)" empty_js "KNumber 8"]
    add_subtract_errors [of "Finite 1" empty_js KNull "Error TypeError"]
    add_subtract_errors [of "Finite 3" empty_js "KNumber 8"]
    empty_js_plain
  by simp

subsection \<open>\<^verbatim>\<open>add\<close> accumulates, exactly up to \<open>2^53\<close>\<close>

lemma add_all_js_accumulates:
  assumes "list_all (\<lambda>(key, a). plain_key st key \<and> 0 \<le> a) ops"
    and "hash_fn (fst st) K = Inr tK"
    and "(case map_of (counts_js (fst st)) tK of Some r \<Rightarrow> count_js r | None \<Rightarrow> Finite 0)
           = Finite c0"
    and "- 9007199254740992 \<le> c0"
    and "c0 + sum_list (map snd (filter (\<lambda>(key, a). hash_fn (fst st) key = Inr tK) ops))
           \<le> 9007199254740992"
  shows "\<exists>st'. add_all_js st (map (\<lambda>(key, a). (key, Finite a)) ops) = (Inr (), st') \<and>
           snd st' = snd st \<and> hash_fn (fst st') = hash_fn (fst st) \<and>
           (case map_of (counts_js (fst st')) tK of Some r \<Rightarrow> count_js r | None \<Rightarrow> Finite 0)
             = Finite (c0 + sum_list (map snd
                 (filter (\<lambda>(key, a). hash_fn (fst st) key = Inr tK) ops)))"
  using assms
proof (induction ops arbitrary: st c0)
  case Nil
  then show ?case by simp
next
  case (Cons op ops)
  obtain key a where op: "op = (key, a)" by (cases op)
  let ?S = "\<lambda>st. sum_list (map snd (filter (\<lambda>(key, a). hash_fn (fst st) key = Inr tK) ops))"
  from Cons.prems(1) op have pk: "plain_key st key" and a: "0 \<le> a"
    and rest: "list_all (\<lambda>(key, a). plain_key st key \<and> 0 \<le> a) ops"
    by simp_all
  from plain_keyD [OF pk] obtain t where
    t: "hash_fn (fst st) key = Inr t" "\<not> prototype_member (snd st) t" by blast
  from a have na: "\<not> num_less (Finite a) (Finite 0)" by simp
  define st1 where "st1 = snd (add_js st key (Finite a))"
  have step: "add_js st key (Finite a) =
      (Inr (Number (case map_of (counts_js (fst st)) t of
                      Some r \<Rightarrow> num_add (count_js r) (Finite a) | None \<Rightarrow> Finite a)), st1)"
    unfolding st1_def by (simp add: add_js_plain [OF t na])
  have env1: "snd st1 = snd st" and h1: "hash_fn (fst st1) = hash_fn (fst st)"
    unfolding st1_def by (simp_all add: add_js_plain [OF t na])
  have tbl1: "map_of (counts_js (fst st1)) =
      (map_of (counts_js (fst st)))(t \<mapsto>
         (case map_of (counts_js (fst st)) t of
            Some r \<Rightarrow> r\<lparr>count_js := num_add (count_js r) (Finite a)\<rparr>
          | None \<Rightarrow> \<lparr>hash_js = t, key_js = key, count_js = Finite a\<rparr>))"
    unfolding st1_def by (simp add: add_js_plain [OF t na] update_conv')
  have S0: "0 \<le> ?S st"
    using rest by (induction ops) (auto split: if_splits)
  define c1 where "c1 = (if t = tK then c0 + a else c0)"
  have sum: "c0 + sum_list (map snd (filter (\<lambda>(key, a). hash_fn (fst st) key = Inr tK) (op # ops)))
             = c1 + ?S st"
    by (simp add: op t c1_def)
  have c1: "(case map_of (counts_js (fst st1)) tK of Some r \<Rightarrow> count_js r | None \<Rightarrow> Finite 0)
            = Finite c1"
  proof (cases "t = tK")
    case False
    with Cons.prems(3) show ?thesis by (simp add: tbl1 c1_def)
  next
    case True
    have bnd: "\<bar>c0 + a\<bar> \<le> 9007199254740992"
      using Cons.prems(4,5) a S0 sum True by (simp add: c1_def)
    show ?thesis
    proof (cases "map_of (counts_js (fst st)) tK")
      case None
      with Cons.prems(3) have "c0 = 0" by simp
      with None True show ?thesis by (simp add: tbl1 c1_def)
    next
      case (Some r)
      with Cons.prems(3) have "count_js r = Finite c0" by simp
      with Some True show ?thesis
        by (simp add: tbl1 c1_def round_double_exact [OF bnd])
    qed
  qed
  have lo: "- 9007199254740992 \<le> c1"
    using Cons.prems(4) a by (simp add: c1_def)
  have "plain_key st1 = plain_key st"
    unfolding plain_key_def env1 h1 ..
  with rest have rest1: "list_all (\<lambda>(key, a). plain_key st1 key \<and> 0 \<le> a) ops"
    by simp
  have K1: "hash_fn (fst st1) K = Inr tK"
    using Cons.prems(2) by (simp add: h1)
  have hi: "c1 + sum_list (map snd (filter (\<lambda>(key, a). hash_fn (fst st1) key = Inr tK) ops))
            \<le> 9007199254740992"
    using Cons.prems(5) sum by (simp add: h1)
  from Cons.IH [OF rest1 K1 c1 lo hi] obtain st' where
    r: "add_all_js st1 (map (\<lambda>(key, a). (key, Finite a)) ops) = (Inr (), st')"
    and e: "snd st' = snd st1" and h: "hash_fn (fst st') = hash_fn (fst st1)"
    and c: "(case map_of (counts_js (fst st')) tK of Some r \<Rightarrow> count_js r | None \<Rightarrow> Finite 0)
             = Finite (c1 + sum_list (map snd
                 (filter (\<lambda>(key, a). hash_fn (fst st1) key = Inr tK) ops)))"
    by blast
  have "add_all_js st (map (\<lambda>(key, a). (key, Finite a)) (op # ops)) = (Inr (), st')"
    using r step by (simp add: op)
  moreover have "snd st' = snd st" using e env1 by simp
  moreover have "hash_fn (fst st') = hash_fn (fst st)" using h h1 by simp
  moreover have
    "(case map_of (counts_js (fst st')) tK of Some r \<Rightarrow> count_js r | None \<Rightarrow> Finite 0)
       = Finite (c0 + sum_list (map snd
           (filter (\<lambda>(key, a). hash_fn (fst st) key = Inr tK) (op # ops))))"
    using c sum by (simp add: h1)
  ultimately show ?case by blast
qed

lemma concat_js_add_all:
  "concat_js st arr = add_all_js st (map (\<lambda>(key, a). (key, Finite a)) (map (\<lambda>key. (key, 1)) arr))"
  by (induction arr arbitrary: st) (simp_all split: prod.split sum.split)

lemma sum_list_ones:
  "sum_list (map snd (filter (\<lambda>(key, a). P key) (map (\<lambda>key. (key, 1::int)) arr)))
   = int (length (filter P arr))"
  by (induction arr) simp_all

lemma add_all_js_get:
  assumes ops: "list_all (\<lambda>(key, a). plain_key st key \<and> 0 \<le> a) ops"
    and K: "plain_key st K"
    and start: "get_js st K = Inr (Number (Finite c0))"
    and lo: "- 9007199254740992 \<le> c0"
    and hi: "c0 + sum_list (map snd
               (filter (\<lambda>(key, a). hash_fn (fst st) key = hash_fn (fst st) K) ops))
             \<le> 9007199254740992"
  shows "\<exists>st'. add_all_js st (map (\<lambda>(key, a). (key, Finite a)) ops) = (Inr (), st') \<and>
           get_js st' K = Inr (Number (Finite (c0 + sum_list (map snd
               (filter (\<lambda>(key, a). hash_fn (fst st) key = hash_fn (fst st) K) ops)))))"
proof -
  from plain_keyD [OF K] obtain tK where
    tK: "hash_fn (fst st) K = Inr tK" "\<not> prototype_member (snd st) tK" by blast
  from start have c: "(case map_of (counts_js (fst st)) tK of
                         Some r \<Rightarrow> count_js r | None \<Rightarrow> Finite 0) = Finite c0"
    by (simp add: get_js_plain [OF tK])
  from hi have hi': "c0 + sum_list (map snd
      (filter (\<lambda>(key, a). hash_fn (fst st) key = Inr tK) ops)) \<le> 9007199254740992"
    by (simp add: tK)
  from add_all_js_accumulates [OF ops tK(1) c lo hi'] obtain st' where
    r: "add_all_js st (map (\<lambda>(key, a). (key, Finite a)) ops) = (Inr (), st')"
    and e: "snd st' = snd st" and h: "hash_fn (fst st') = hash_fn (fst st)"
    and c': "(case map_of (counts_js (fst st')) tK of Some r \<Rightarrow> count_js r | None \<Rightarrow> Finite 0)
             = Finite (c0 + sum_list (map snd
                 (filter (\<lambda>(key, a). hash_fn (fst st) key = Inr tK) ops)))"
    by blast
  have tK': "hash_fn (fst st') K = Inr tK" "\<not> prototype_member (snd st') tK"
    using tK by (simp_all add: e h)
  have "get_js st' K = Inr (Number (Finite (c0 + sum_list (map snd
               (filter (\<lambda>(key, a). hash_fn (fst st) key = hash_fn (fst st) K) ops)))))"
    using c' by (simp add: get_js_plain [OF tK'] tK)
  with r show ?thesis by blast
qed

lemma constructor_js_get:
  assumes keys: "list_all (plain_key
        (\<lparr>counts_js = [], hash_fn = h, allowNegativeCounts_js = neg\<rparr>, env)) array"
    and K: "plain_key (\<lparr>counts_js = [], hash_fn = h, allowNegativeCounts_js = neg\<rparr>, env) K"
    and len: "int (length (filter (\<lambda>key. h key = h K) array)) \<le> 9007199254740992"
  shows "\<exists>st'. constructor_js array h neg env = (Inr (), st') \<and>
           get_js st' K = Inr (Number (Finite (int (length (filter (\<lambda>key. h key = h K) array)))))"
proof -
  let ?st = "(\<lparr>counts_js = [], hash_fn = h, allowNegativeCounts_js = neg\<rparr>, env)"
  let ?ops = "map (\<lambda>key. (key, 1::int)) array"
  have ops: "list_all (\<lambda>(key, a). plain_key ?st key \<and> 0 \<le> a) ?ops"
    using keys by (simp add: list_all_iff)
  from plain_keyD [OF K] obtain tK where
    tK: "hash_fn (fst ?st) K = Inr tK" "\<not> prototype_member (snd ?st) tK" by blast
  have start: "get_js ?st K = Inr (Number (Finite 0))"
    by (simp add: get_js_plain [OF tK])
  have s: "sum_list (map snd (filter (\<lambda>(key, a). hash_fn (fst ?st) key = hash_fn (fst ?st) K) ?ops))
           = int (length (filter (\<lambda>key. h key = h K) array))"
    using sum_list_ones [of "\<lambda>key. h key = h K" array] by simp
  have hi: "0 + sum_list (map snd
      (filter (\<lambda>(key, a). hash_fn (fst ?st) key = hash_fn (fst ?st) K) ?ops))
      \<le> 9007199254740992"
    using len by (simp only: s)
  from add_all_js_get [OF ops K start _ hi] obtain st' where
    "add_all_js ?st (map (\<lambda>(key, a). (key, Finite a)) ?ops) = (Inr (), st')"
    and "get_js st' K = Inr (Number (Finite (0 + sum_list (map snd
      (filter (\<lambda>(key, a). hash_fn (fst ?st) key = hash_fn (fst ?st) K) ?ops)))))"
    by auto
  then show ?thesis
    by (simp only: s constructor_js_def concat_js_add_all) simp
qed

lemma add_js_returns_count:
  assumes "plain_key st key" and "\<not> num_less amount (Finite 0)"
  shows "get_js (snd (add_js st key amount)) key = fst (add_js st key amount)"
proof -
  from plain_keyD [OF assms(1)] obtain t where
    t: "hash_fn (fst st) key = Inr t" "\<not> prototype_member (snd st) t" by blast
  have t': "hash_fn (fst (snd (add_js st key amount))) key = Inr t"
    "\<not> prototype_member (snd (snd (add_js st key amount))) t"
    using t by (simp_all add: add_js_plain [OF t assms(2)])
  show ?thesis
    by (simp add: get_js_plain [OF t']) (simp add: add_js_plain [OF t assms(2)] update_conv'
          split: option.split)
qed

text \<open>
  Claim C4 says that after a sequence of \<^verbatim>\<open>add\<close> calls with non-negative amounts
  \<^verbatim>\<open>get(K)\<close> equals the sum of the amounts. On an empty map, after \<^verbatim>\<open>add(1, 2^53)\<close> and
  \<^verbatim>\<open>add(1, 1)\<close> the second call returns \<open>2^53\<close> and so does \<^verbatim>\<open>get(1)\<close>: the sum
  \<open>2^53 + 1\<close> is not a double.
\<close>

theorem add_rounds_beyond_2_53:
  "fst (add_js (snd (add_js empty_js (KNumber 1) (Finite 9007199254740992)))
         (KNumber 1) (Finite 1)) = Inr (Number (Finite 9007199254740992)) \<and>
   get_js (snd (add_js (snd (add_js empty_js (KNumber 1) (Finite 9007199254740992)))
         (KNumber 1) (Finite 1))) (KNumber 1) = Inr (Number (Finite 9007199254740992)) \<and>
   (9007199254740992 :: int) + 1 \<noteq> 9007199254740992"
  by code_simp

text \<open>
  Claim C4, amended. Take a sequence of \<^verbatim>\<open>add(key, amount)\<close> calls with non-negative
  integer amounts on plain keys, and a plain key \<open>K\<close> for which \<^verbatim>\<open>get(K)\<close> is an integer
  \<open>c0 \<ge> -2^53\<close> at the start. If \<open>c0\<close> plus the amounts added to keys that share \<open>K\<close>'s
  token does not exceed \<open>2^53\<close>, then no call throws and afterwards \<^verbatim>\<open>get(K)\<close> is exactly
  that sum. The constructor's bulk load of plain keys gives \<^verbatim>\<open>get(K)\<close> the number of
  initial keys with \<open>K\<close>'s token (when that number is at most \<open>2^53\<close>). On a plain key,
  \<^verbatim>\<open>add\<close> with a non-negative amount returns what \<^verbatim>\<open>get\<close> returns afterwards. For the
  test suite's map: \<^verbatim>\<open>get(1) = 3\<close>, \<^verbatim>\<open>get(2) = 2\<close>, \<^verbatim>\<open>get(4) = 3\<close>, \<^verbatim>\<open>get(18) = 1\<close>
  and \<^verbatim>\<open>has(-1)\<close> is false.
\<close>

theorem add_accumulates_within_2_53:
  "(list_all (\<lambda>(key, a). plain_key st key \<and> 0 \<le> a) ops \<and> plain_key st K \<and>
    get_js st K = Inr (Number (Finite c0)) \<and> - 9007199254740992 \<le> c0 \<and>
    c0 + sum_list (map snd
           (filter (\<lambda>(key, a). hash_fn (fst st) key = hash_fn (fst st) K) ops))
      \<le> 9007199254740992 \<longrightarrow>
    (\<exists>st'. add_all_js st (map (\<lambda>(key, a). (key, Finite a)) ops) = (Inr (), st') \<and>
       get_js st' K = Inr (Number (Finite (c0 + sum_list (map snd
           (filter (\<lambda>(key, a). hash_fn (fst st) key = hash_fn (fst st) K) ops))))))) \<and>
   (list_all (plain_key (\<lparr>counts_js = [], hash_fn = h, allowNegativeCounts_js = neg\<rparr>, env))
      array \<and>
    plain_key (\<lparr>counts_js = [], hash_fn = h, allowNegativeCounts_js = neg\<rparr>, env) K' \<and>
    int (length (filter (\<lambda>key. h key = h K') array)) \<le> 9007199254740992 \<longrightarrow>
    (\<exists>st'. constructor_js array h neg env = (Inr (), st') \<and>
       get_js st' K' =
         Inr (Number (Finite (int (length (filter (\<lambda>key. h key = h K') array))))))) \<and>
   (plain_key st key \<and> \<not> num_less amount (Finite 0) \<longrightarrow>
      get_js (snd (add_js st key amount)) key = fst (add_js st key amount)) \<and>
   (get_js mapStandard_js (KNumber 1) = Inr (Number (Finite 3)) \<and>
    get_js mapStandard_js (KNumber 2) = Inr (Number (Finite 2)) \<and>
    get_js mapStandard_js (KNumber 4) = Inr (Number (Finite 3)) \<and>
    get_js mapStandard_js (KNumber 18) = Inr (Number (Finite 1)) \<and>
    has_js mapStandard_js (KNumber (- 1)) = Inr False)"
proof -
  have 4: "get_js mapStandard_js (KNumber 1) = Inr (Number (Finite 3)) \<and>
    get_js mapStandard_js (KNumber 2) = Inr (Number (Finite 2)) \<and>
    get_js mapStandard_js (KNumber 4) = Inr (Number (Finite 3)) \<and>
    get_js mapStandard_js (KNumber 18) = Inr (Number (Finite 1)) \<and>
    has_js mapStandard_js (KNumber (- 1)) = Inr False"
    by code_simp
  show ?thesis
    apply (intro conjI impI)
    subgoal by (elim conjE) (rule add_all_js_get)
    subgoal by (elim conjE) (rule constructor_js_get)
    subgoal by (elim conjE) (rule add_js_returns_count)
    using 4 by simp_all
qed

lemma mapStandard_js_facts:
  "plain_key mapStandard_js (KNumber 8) \<and> plain_key mapStandard_js (KNumber 22) \<and>
   get_js mapStandard_js (KNumber 8) = Inr (Number (Finite 1)) \<and>
   hash_fn (fst mapStandard_js) (KNumber 22) \<noteq> hash_fn (fst mapStandard_js) (KNumber 8)"
  by code_simp

lemma testItems_plain:
  "list_all (plain_key (\<lparr>counts_js = [], hash_fn = default_hash_js :: jskey \<Rightarrow> unit exception + string,
               allowNegativeCounts_js = False\<rparr>, standard_environment))
     (map KNumber testItems) \<and>
   plain_key (\<lparr>counts_js = [], hash_fn = default_hash_js :: jskey \<Rightarrow> unit exception + string,
               allowNegativeCounts_js = False\<rparr>, standard_environment) (KNumber 1) \<and>
   int (length (filter (\<lambda>key. (default_hash_js key :: unit exception + string)
                            = default_hash_js (KNumber 1)) (map KNumber testItems))) = 3"
  by code_simp

theorem add_accumulates_within_2_53_witness:
  "(\<exists>st'. add_all_js mapStandard_js
            [(KNumber 8, Finite 3), (KNumber 22, Finite 1), (KNumber 8, Finite 2)] = (Inr (), st') \<and>
         get_js st' (KNumber 8) = Inr (Number (Finite 6))) \<and>
   (\<exists>st'. constructor_js (map KNumber testItems) default_hash_js False standard_environment
            = (Inr (), st') \<and>
         get_js st' (KNumber 1) = (Inr (Number (Finite 3)) :: unit exception + jsvalue)) \<and>
   get_js (snd (add_js mapStandard_js (KNumber 8) (Finite 3))) (KNumber 8)
     = fst (add_js mapStandard_js (KNumber 8) (Finite 3))"
proof -
  let ?ops = "[(KNumber 8, 3 :: int), (KNumber 22, 1), (KNumber 8, 2)]"
  let ?h = "default_hash_js :: jskey \<Rightarrow> unit exception + string"
  note inst = add_accumulates_within_2_53
    [of mapStandard_js ?ops "KNumber 8" 1 ?h False standard_environment
        "map KNumber testItems" "KNumber 1" "KNumber 8" "Finite 3"]
  have s: "sum_list (map snd (filter (\<lambda>(key, a). hash_fn (fst mapStandard_js) key
              = hash_fn (fst mapStandard_js) (KNumber 8)) ?ops)) = 5"
    using mapStandard_js_facts by simp
  have h: "list_all (\<lambda>(key, a). plain_key mapStandard_js key \<and> 0 \<le> a) ?ops \<and>
      plain_key mapStandard_js (KNumber 8) \<and>
      get_js mapStandard_js (KNumber 8) = Inr (Number (Finite 1)) \<and>
      - 9007199254740992 \<le> (1 :: int) \<and>
      1 + sum_list (map snd (filter (\<lambda>(key, a). hash_fn (fst mapStandard_js) key
              = hash_fn (fst mapStandard_js) (KNumber 8)) ?ops)) \<le> 9007199254740992"
    using mapStandard_js_facts by (simp only: s) simp
  have "\<exists>st'. add_all_js mapStandard_js (map (\<lambda>(key, a). (key, Finite a)) ?ops) = (Inr (), st') \<and>
       get_js st' (KNumber 8) = Inr (Number (Finite (1 + sum_list (map snd
           (filter (\<lambda>(key, a). hash_fn (fst mapStandard_js) key
              = hash_fn (fst mapStandard_js) (KNumber 8)) ?ops)))))"
    by (rule mp [OF conjunct1 [OF inst] h])
  then have a: "\<exists>st'. add_all_js mapStandard_js
            [(KNumber 8, Finite 3), (KNumber 22, Finite 1), (KNumber 8, Finite 2)] = (Inr (), st') \<and>
         get_js st' (KNumber 8) = Inr (Number (Finite 6))"
    by (simp only: s) (simp del: add_all_js.simps)
  have hb: "list_all (plain_key (\<lparr>counts_js = [], hash_fn = ?h,
               allowNegativeCounts_js = False\<rparr>, standard_environment))
     (map KNumber testItems) \<and>
   plain_key (\<lparr>counts_js = [], hash_fn = ?h,
               allowNegativeCounts_js = False\<rparr>, standard_environment) (KNumber 1) \<and>
   int (length (filter (\<lambda>key. ?h key = ?h (KNumber 1)) (map KNumber testItems)))
     \<le> 9007199254740992"
    using testItems_plain by simp
  have "\<exists>st'. constructor_js (map KNumber testItems) ?h False standard_environment
            = (Inr (), st') \<and>
         get_js st' (KNumber 1) = Inr (Number (Finite (int (length
           (filter (\<lambda>key. ?h key = ?h (KNumber 1)) (map KNumber testItems))))))"
    by (rule mp [OF conjunct1 [OF conjunct2 [OF inst]] hb])
  then have b: "\<exists>st'. constructor_js (map KNumber testItems) ?h False standard_environment
            = (Inr (), st') \<and> get_js st' (KNumber 1) = Inr (Number (Finite 3))"
    using testItems_plain by simp
  have hc: "plain_key mapStandard_js (KNumber 8) \<and> \<not> num_less (Finite 3) (Finite 0)"
    using mapStandard_js_facts by simp
  have c: "get_js (snd (add_js mapStandard_js (KNumber 8) (Finite 3))) (KNumber 8)
     = fst (add_js mapStandard_js (KNumber 8) (Finite 3))"
    by (rule mp [OF conjunct1 [OF conjunct2 [OF conjunct2 [OF inst]]] hc])
  from a b c show ?thesis by (intro conjI)
qed

subsection \<open>\<^verbatim>\<open>subtract\<close> on a key without a record\<close>

text \<open>On a plain key without a record, \<^verbatim>\<open>subtract\<close> returns 0 and changes nothing.\<close>

lemma subtract_js_absent:
  assumes "plain_key st key" and "has_js st key = Inr False"
    and "\<not> num_less amount (Finite 0)"
  shows "subtract_js st key amount = (Inr (Number (Finite 0)), st)"
proof -
  from plain_keyD [OF assms(1)] obtain t where
    t: "hash_fn (fst st) key = Inr t" "\<not> prototype_member (snd st) t" by blast
  from assms(2) have "map_of (counts_js (fst st)) t = None"
    by (simp add: has_js_plain [OF t])
  with t assms(3) show ?thesis
    by (simp add: subtract_js_def counts_get_plain)
qed

text \<open>
  Claim C6 says that \<^verbatim>\<open>subtract(key, amount)\<close> on a key whose token has no record returns
  0 and that \<^verbatim>\<open>has(key)\<close> stays false. On an empty map the token \<^verbatim>\<open>valueOf\<close> has no
  record, yet \<^verbatim>\<open>has('valueOf')\<close> is true and \<^verbatim>\<open>subtract('valueOf', 1)\<close> returns
  \<^verbatim>\<open>NaN\<close>, after writing \<^verbatim>\<open>count = NaN\<close> on the built-in function
  \<^verbatim>\<open>Object.prototype.valueOf\<close>.
\<close>

theorem subtract_on_inherited_member:
  "counts_js (fst empty_js) = [] \<and>
   has_js empty_js (KString ''valueOf'') = Inr True \<and>
   fst (subtract_js empty_js (KString ''valueOf'') (Finite 1)) = Inr (Number NaN) \<and>
   function_count (snd (snd (subtract_js empty_js (KString ''valueOf'') (Finite 1))))
     = [(''valueOf'', NaN)]"
  by code_simp

subsection \<open>A write through \<^verbatim>\<open>__proto__\<close> reaches other keys\<close>

text \<open>
  Claim C10 says that \<^verbatim>\<open>add(k, amount)\<close> leaves \<^verbatim>\<open>get(k')\<close> and \<^verbatim>\<open>has(k')\<close> unchanged
  when the tokens of \<open>k\<close> and \<open>k'\<close> differ. On an empty map \<^verbatim>\<open>add('__proto__', 1)\<close>
  writes \<^verbatim>\<open>Object.prototype.count = NaN\<close>; afterwards \<^verbatim>\<open>has('count')\<close> is true where it
  was false, and \<^verbatim>\<open>get('toString')\<close> is \<^verbatim>\<open>NaN\<close> where it was \<^verbatim>\<open>undefined\<close>.
\<close>

theorem add_through_prototype_changes_other_keys:
  "hash_fn (fst empty_js) (KString ''__proto__'') \<noteq> hash_fn (fst empty_js) (KString ''count'') \<and>
   hash_fn (fst empty_js) (KString ''__proto__'') \<noteq> hash_fn (fst empty_js) (KString ''toString'') \<and>
   has_js empty_js (KString ''count'') = Inr False \<and>
   has_js (snd (add_js empty_js (KString ''__proto__'') (Finite 1))) (KString ''count'') = Inr True \<and>
   get_js empty_js (KString ''toString'') = Inr Undefined \<and>
   get_js (snd (add_js empty_js (KString ''__proto__'') (Finite 1))) (KString ''toString'')
     = Inr (Number NaN)"
  by code_simp

subsection \<open>The first part is this one on plain keys\<close>

text \<open>
  On a key whose token is not the name of a member of \<^verbatim>\<open>Object.prototype\<close>, \<^verbatim>\<open>get\<close> and
  \<^verbatim>\<open>has\<close> of the first part are those of this part, and so is \<^verbatim>\<open>add\<close> as long as the
  new count does not exceed \<open>2^53\<close> in magnitude.
\<close>

lemma map_update_objects:
  "map (\<lambda>(p, r). (p, f r)) (AList.update k v al) = AList.update k (f v) (map (\<lambda>(p, r). (p, f r)) al)"
  by (induction al) auto

lemma map_of_to_js:
  "map_of (counts_js (fst (to_js this env))) p = map_option to_js_object (map_of (counts this) p)"
  by (simp add: to_js_def map_of_map)

lemma to_js_hash: "hash_fn (fst (to_js this env)) key = Inr (call (hash this) key)"
  by (simp add: to_js_def)

lemma to_js_member:
  "\<not> prototype_member env p \<Longrightarrow> \<not> prototype_member (snd (to_js this env)) p"
  by (simp add: to_js_def)

lemma get_js_to_js:
  assumes "\<not> prototype_member env (call (hash this) key)"
  shows "get_js (to_js this env) key = Inr (Number (Finite (get this key)))"
  by (simp add: get_js_plain [OF to_js_hash to_js_member [OF assms]] map_of_to_js get_def
        to_js_object_def split: option.split)

lemma has_js_to_js:
  assumes "\<not> prototype_member env (call (hash this) key)"
  shows "has_js (to_js this env) key = Inr (has this key)"
  by (simp add: has_js_plain [OF to_js_hash to_js_member [OF assms]] map_of_to_js has_def)

lemma add_js_to_js:
  assumes p: "\<not> prototype_member env (call (hash this) key)"
    and a: "0 \<le> amount" and b: "\<bar>get this key + amount\<bar> \<le> 9007199254740992"
  shows "add_js (to_js this env) key (Finite amount) =
         (Inr (Number (Finite (get this key + amount))), to_js (snd (add this key amount)) env)"
proof -
  from a have na: "\<not> num_less (Finite amount) (Finite 0)" by simp
  note step = add_js_plain [OF to_js_hash to_js_member [OF p] na]
  show ?thesis
  proof (cases "map_of (counts this) (call (hash this) key)")
    case None
    then show ?thesis
      using a
      by (simp add: step map_of_to_js)
         (simp add: to_js_def add_def Let_def get_def map_update_objects, simp add: to_js_object_def)
  next
    case (Some r)
    with b have "round_double (obj_count r + amount) = Finite (obj_count r + amount)"
      by (simp add: round_double_exact get_def)
    with Some show ?thesis
      using a
      by (simp add: step map_of_to_js)
         (simp add: to_js_def add_def Let_def get_def map_update_objects, simp add: to_js_object_def)
  qed
qed

end
